theory Spec2Isabelle
  imports
    Main
    "HOL-Library.Char_ord"
    "HOL-Library.List_Lexorder"
    "HOL-Library.Multiset"
    "HOL-Library.Sublist"
begin

section \<open>Exceptions\<close>

text \<open>
  Every exception the modelled functions can raise is a value of this type; a function
  that can raise returns its outcome (\<open>Inl\<close> the exception, \<open>Inr\<close> the normal return)
  next to the state it leaves behind.
\<close>

datatype error =
    NotImplementedError string
  | StatusValidationError string
  | KeyError string
  | TypeError string
  | AttributeError string
  | StopIteration

section \<open>The migration \<open>9a38b1d92f3e\<close>: extend tables for scope objects\<close>

text \<open>
  The script talks to the database only through Alembic's \<open>op.add_column\<close> and
  \<open>op.create_unique_constraint\<close>. The database is modelled by the list of operations
  issued to it so far; an operation appends itself to that list.
\<close>

datatype sa_type = SA_Integer | SA_String nat

record sa_column =
  col_name :: string
  col_type :: sa_type
  autoincrement :: "bool option"
  nullable :: bool

datatype ddl_op =
    add_column string sa_column
  | create_unique_constraint string string "string list"

type_synonym database = "ddl_op list"

fun op_table :: "ddl_op \<Rightarrow> string" where
  "op_table (add_column table_name c) = table_name"
| "op_table (create_unique_constraint constraint_name table_name cols) = table_name"

definition scope_tables_names :: "string set" where
  "scope_tables_names = {
     ''access_groups'',
     ''account_balances'',
     ''data_assets'',
     ''facilities'',
     ''markets'',
     ''org_groups'',
     ''vendors'',
     ''products'',
     ''projects'',
     ''systems'',
     ''key_reports'',
     ''product_groups'',
     ''metrics'',
     ''technology_environments''}"

text \<open>The body of the loop of \<open>upgrade\<close>, for one table name.\<close>

definition upgrade_table :: "string \<Rightarrow> database \<Rightarrow> database" where
  "upgrade_table name db = db @
     [add_column name
        \<lparr>col_name = ''external_id'', col_type = SA_Integer,
         autoincrement = Some False, nullable = True\<rparr>,
      add_column name
        \<lparr>col_name = ''external_slug'', col_type = SA_String 255,
         autoincrement = Some False, nullable = True\<rparr>,
      add_column name
        \<lparr>col_name = ''created_by_id'', col_type = SA_Integer,
         autoincrement = None, nullable = True\<rparr>,
      create_unique_constraint ''uq_external_id'' name [''external_id''],
      create_unique_constraint ''uq_external_slug'' name [''external_slug'']]"

text \<open>
  \<open>upgrade\<close> iterates over the set \<open>scope_tables_names\<close>. The order in which Python
  enumerates a set is unspecified, so the enumeration is an argument: any duplicate-free
  list \<open>names\<close> of the elements of the set.
\<close>

fun upgrade_loop :: "string list \<Rightarrow> database \<Rightarrow> database" where
  "upgrade_loop [] db = db"
| "upgrade_loop (name # names) db = upgrade_loop names (upgrade_table name db)"

definition enumerates :: "'a list \<Rightarrow> 'a set \<Rightarrow> bool" where
  "enumerates xs S = (distinct xs \<and> set xs = S)"

definition upgrade :: "string list \<Rightarrow> database \<Rightarrow> database" where
  "upgrade names db = upgrade_loop names db"

definition downgrade :: "database \<Rightarrow> (error + unit) \<times> database" where
  "downgrade db = (Inl (NotImplementedError ''Downgrade is not supported''), db)"

text \<open>The operations that the database \<open>db'\<close> has received on top of \<open>db\<close>.\<close>

definition issued :: "database \<Rightarrow> database \<Rightarrow> ddl_op list" where
  "issued db db' = drop (length db) db'"

text \<open>
  One enumeration of \<open>scope_tables_names\<close>, in the order of the source text; it serves
  as the concrete input of the examples.
\<close>

definition scope_tables_order :: "string list" where
  "scope_tables_order =
    [''access_groups'', ''account_balances'', ''data_assets'', ''facilities'',
     ''markets'', ''org_groups'', ''vendors'', ''products'', ''projects'', ''systems'',
     ''key_reports'', ''product_groups'', ''metrics'', ''technology_environments'']"

section \<open>Column order of the CSV converters: \<open>ggrc/converters/import_helper.py\<close>\<close>

text \<open>
  \<open>str.lower\<close> and \<open>str.startswith\<close> on byte strings: \<open>lower\<close> maps the letters
  \<open>A\<close> to \<open>Z\<close> to \<open>a\<close> to \<open>z\<close> and leaves every other byte alone. Python compares
  strings lexicographically by character code, which is the order of \<open>char list\<close> here.
\<close>

definition lower_char :: "char \<Rightarrow> char" where
  "lower_char c = (if CHR ''A'' \<le> c \<and> c \<le> CHR ''Z'' then char_of (of_char c + (32::nat)) else c)"

definition lower :: "string \<Rightarrow> string" where
  "lower s = map lower_char s"

definition startswith :: "string \<Rightarrow> string \<Rightarrow> bool" where
  "startswith s p = (take (length p) s = p)"

text \<open>
  \<open>get_column_order\<close>. The tuple \<open>COLUMN_ORDER\<close> is imported from the package
  \<open>ggrc.converters\<close>, so it is an argument here. Each local variable of the function is a
  definition of its own; \<open>list.sort(key=...)\<close> is a stable sort, as \<open>sort_key\<close> is.
\<close>

definition default_attrs :: "string list \<Rightarrow> string list \<Rightarrow> string list" where
  "default_attrs COLUMN_ORDER attr_list =
     (let attr_set = set attr_list in filter (\<lambda>v. v \<in> attr_set) COLUMN_ORDER)"

definition other_attrs :: "string list \<Rightarrow> string list \<Rightarrow> string list" where
  "other_attrs COLUMN_ORDER attr_list =
     (let default_set = set (default_attrs COLUMN_ORDER attr_list)
      in filter (\<lambda>v. v \<notin> default_set) attr_list)"

definition custom_attrs :: "string list \<Rightarrow> string list \<Rightarrow> string list" where
  "custom_attrs COLUMN_ORDER attr_list =
     sort_key lower
       (filter (\<lambda>v. \<not> startswith (lower v) ''map:'') (other_attrs COLUMN_ORDER attr_list))"

definition mapping_attrs :: "string list \<Rightarrow> string list \<Rightarrow> string list" where
  "mapping_attrs COLUMN_ORDER attr_list =
     sort_key lower
       (filter (\<lambda>v. startswith (lower v) ''map:'') (other_attrs COLUMN_ORDER attr_list))"

definition get_column_order :: "string list \<Rightarrow> string list \<Rightarrow> string list" where
  "get_column_order COLUMN_ORDER attr_list =
     default_attrs COLUMN_ORDER attr_list @ custom_attrs COLUMN_ORDER attr_list
       @ mapping_attrs COLUMN_ORDER attr_list"

section \<open>The assessment hooks: \<open>ggrc/models/hooks/assessment.py\<close>\<close>

text \<open>
  The functions keep the names of the source without the leading underscore of the private
  ones. Person, role and object ids are natural numbers. A text attribute that holds
  \<open>None\<close> is the empty string: the code only tests such attributes for truth, and both
  are false.
\<close>

subsection \<open>Objects\<close>

type_synonym person_id = nat

datatype object_ref = Snapshot_ref nat | Audit_ref nat

text \<open>
  An assessment, with the attributes the hooks read or write. The class attributes
  \<open>NOT_DONE_STATES\<close>, \<open>DONE_STATES\<close>, \<open>DONE_STATE\<close> and \<open>FINAL_STATE\<close> are declared
  outside this module and are read through the object, so they are fields here. An
  attribute that the code reads with \<open>hasattr\<close> or \<open>getattr\<close> and a default is an
  option: \<open>None\<close> when the object has no such attribute. \<open>acl_with_role_name\<close> is the
  table behind \<open>get_acl_with_role_name\<close>: the id of the assessment's access control
  list for a role name; \<open>mapped_to\<close> records the arguments of the calls of \<open>map_to\<close>.
\<close>

record assessment =
  asmt_id :: nat
  table_singular :: string
  status :: string
  verified :: bool
  preconditions_failed :: "bool option"
  sox_302_enabled :: "bool option"
  verifiers :: "person_id list option"
  title :: string
  test_plan :: string
  test_plan_procedure :: bool
  assessment_type :: string
  acl_with_role_name :: "(string \<times> nat) list"
  mapped_to :: "object_ref option list"
  NOT_DONE_STATES :: "string set"
  DONE_STATES :: "string set"
  DONE_STATE :: string
  FINAL_STATE :: string

text \<open>
  A custom attribute definition as the dictionary \<open>to_dict()\<close> returns: the keys that
  \<open>clone_cad_stub\<close> overwrites, and \<open>cad_fields\<close> for all the other keys.
\<close>

record cad =
  cad_id :: "nat option"
  definition_type :: string
  definition_id :: nat
  created_at :: nat
  updated_at :: nat
  modified_by_id :: nat
  cad_fields :: "(string \<times> string) list"

text \<open>
  The stub of an access control person that \<open>add_person_to_acl\<close> builds.
\<close>

record acp =
  acp_id :: "nat option"
  person_id :: person_id
  ac_list_id :: nat
  acp_created_at :: nat
  acp_updated_at :: nat
  acp_modified_by_id :: nat

text \<open>
  An assessment template. An entry of \<open>default_people\<close> is either the name of a role or
  a list of person ids. \<open>custom_attribute_definitions\<close> holds, for each definition of the
  template, the dictionary that its \<open>to_dict()\<close> returns.
\<close>

datatype people_setting = Role_name string | People_ids "person_id list"

record assessment_template =
  tmpl_sox_302_enabled :: bool
  tmpl_test_plan_procedure :: bool
  procedure_description :: string
  template_object_type :: string
  default_people :: "(string \<times> people_setting) list"
  custom_attribute_definitions :: "cad list"

text \<open>
  An audit with its access control list as the pairs (person, role id) that the code
  iterates over, a snapshot, and the content of a snapshot's revision: a dictionary, of
  which the code reads the keys \<open>title\<close>, \<open>test_plan\<close> and \<open>access_control_list\<close>; a key
  that is missing is \<open>None\<close>.
\<close>

record audit =
  audit_id :: nat
  audit_title :: string
  audit_access_control_list :: "(person_id \<times> nat) list"

record snapshot =
  snapshot_id :: nat
  child_type :: string

record acl_entry =
  ac_role_id :: nat
  acl_person_id :: person_id

record revision_content =
  rc_title :: "string option"
  rc_test_plan :: "string option"
  rc_access_control_list :: "acl_entry list option"

subsection \<open>The request: \<open>flask.g\<close>, \<open>db.session\<close> and what the hooks read from outside\<close>

text \<open>
  The session and the object cache belong to the framework: the model records the calls
  made to them, in order. \<open>cads_to_batch_insert\<close> and \<open>acps_to_batch_insert\<close> are the
  attributes of \<open>flask.g\<close>, \<open>None\<close> while the attribute does not exist.
  \<open>utcnow_calls\<close> counts the readings of the clock.
\<close>

datatype session_call =
    flush
  | rollback
  | execute_insert_cads "cad list"
  | execute_insert_acps "acp list"
  | cache_new_cads "nat list"
  | cache_new_acps "nat list"

record request =
  cads_to_batch_insert :: "cad list option"
  acps_to_batch_insert :: "acp list option"
  session :: "session_call list"
  utcnow_calls :: nat

text \<open>
  What the hooks read from their surroundings: the id of the current user, the clock
  (\<open>clock env k\<close> is what the \<open>k\<close>-th call of \<open>datetime.utcnow()\<close> returns), the ids of the
  rows of the people table, the order in which Python iterates over the set built from a
  list of ids (unspecified by the language, so any enumeration of the set), and the
  custom roles of an object type as the pairs (id, name) of
  \<open>access_control.role.get_custom_roles_for\<close>.
\<close>

record environment =
  current_user_id :: person_id
  clock :: "nat \<Rightarrow> nat"
  people_table :: "person_id list"
  set_order :: "person_id list \<Rightarrow> person_id list"
  custom_roles_for :: "string \<Rightarrow> (nat \<times> string) list"

text \<open>
  \<open>getattr(obj, name, default)\<close> on an attribute that may be absent, and a reading of the
  clock.
\<close>

definition getattr :: "'a option \<Rightarrow> 'a \<Rightarrow> 'a" where
  "getattr attr dflt = (case attr of None \<Rightarrow> dflt | Some v \<Rightarrow> v)"

definition utcnow :: "environment \<Rightarrow> request \<Rightarrow> nat \<times> request" where
  "utcnow env g = (clock env (utcnow_calls g), g\<lparr>utcnow_calls := Suc (utcnow_calls g)\<rparr>)"

subsection \<open>The status check\<close>

text \<open>
  \<open>_validate_assessment_done_state\<close> raises before it changes anything, or returns,
  possibly after moving the status from the final state back to the done state.
  \<open>handle_assessment_done_state\<close> is the handler of \<open>model_put_before_commit\<close>: its
  \<open>except\<close> clause catches \<open>StatusValidationError\<close> only.
\<close>

definition preconditions_not_satisfied :: error where
  "preconditions_not_satisfied = StatusValidationError
     (''CA-introduced completion '' @ ''preconditions are not satisfied. '' @
      ''Check preconditions_failed '' @ ''of items of self.custom_attribute_values'')"

definition validate_assessment_done_state ::
    "string \<Rightarrow> assessment \<Rightarrow> (error + unit) \<times> assessment" where
  "validate_assessment_done_state old_value obj =
     (let new_value = status obj in
      if (old_value \<in> NOT_DONE_STATES obj \<and> new_value \<in> DONE_STATES obj) \<and>
         (preconditions_failed obj \<noteq> None \<and> getattr (preconditions_failed obj) False)
      then (Inl preconditions_not_satisfied, obj)
      else if status obj = FINAL_STATE obj \<and>
              \<not> verified obj \<and>
              \<not> getattr (sox_302_enabled obj) False \<and>
              getattr (verifiers obj) [] \<noteq> []
      then (Inr (), obj\<lparr>status := DONE_STATE obj\<rparr>)
      else (Inr (), obj))"

fun is_StatusValidationError :: "error \<Rightarrow> bool" where
  "is_StatusValidationError (StatusValidationError msg) = True"
| "is_StatusValidationError e = False"

definition handle_assessment_done_state ::
    "assessment \<Rightarrow> assessment \<Rightarrow> request \<Rightarrow> (error + unit) \<times> assessment \<times> request" where
  "handle_assessment_done_state obj initial_state g =
     (let old_value = status initial_state in
      case validate_assessment_done_state old_value obj of
        (Inl error, obj') \<Rightarrow>
          if is_StatusValidationError error
          then (Inl error, obj', g\<lparr>session := session g @ [rollback]\<rparr>)
          else (Inl error, obj', g)
      | (Inr u, obj') \<Rightarrow> (Inr u, obj', g))"

subsection \<open>Properties set from the template, the audit and the snapshot's revision\<close>

text \<open>
  Subscripting \<open>None\<close> raises \<open>TypeError\<close>, a missing key raises \<open>KeyError\<close>, and
  \<open>None.get\<close> raises \<open>AttributeError\<close>. A template, when there is one, is true.
  \<open>map_to\<close> is a method of the model: the calls are recorded on the assessment.
\<close>

definition set_title ::
    "assessment \<Rightarrow> audit \<Rightarrow> revision_content option \<Rightarrow> (error + unit) \<times> assessment" where
  "set_title assessment audit snapshot_rev_content =
     (case snapshot_rev_content of
        None \<Rightarrow> (Inl (TypeError ''NoneType object has no attribute __getitem__''), assessment)
      | Some content \<Rightarrow>
          (case rc_title content of
             None \<Rightarrow> (Inl (KeyError ''title''), assessment)
           | Some t \<Rightarrow>
               (Inr (), assessment\<lparr>title := t @ '' assessment for '' @ audit_title audit\<rparr>)))"

definition set_test_plan ::
    "assessment \<Rightarrow> assessment_template option \<Rightarrow> revision_content option
       \<Rightarrow> (error + unit) \<times> assessment" where
  "set_test_plan assessment template snapshot_rev_content =
     (let a1 = (case template of
                  None \<Rightarrow> assessment
                | Some t \<Rightarrow> assessment\<lparr>test_plan_procedure := tmpl_test_plan_procedure t,
                                        test_plan := procedure_description t\<rparr>)
      in if (case template of None \<Rightarrow> True | Some t \<Rightarrow> tmpl_test_plan_procedure t)
         then (case snapshot_rev_content of
                 None \<Rightarrow> (Inl (AttributeError ''NoneType object has no attribute get''), a1)
               | Some content \<Rightarrow>
                   (let snapshot_plan = getattr (rc_test_plan content) '''' in
                    if test_plan a1 \<noteq> [] \<and> snapshot_plan \<noteq> []
                    then (Inr (), a1\<lparr>test_plan := (test_plan a1 @ ''<br>'') @ snapshot_plan\<rparr>)
                    else if snapshot_plan \<noteq> []
                    then (Inr (), a1\<lparr>test_plan := snapshot_plan\<rparr>)
                    else (Inr (), a1)))
         else (Inr (), a1))"

definition set_assessment_type :: "assessment \<Rightarrow> assessment_template option \<Rightarrow> assessment" where
  "set_assessment_type assessment template =
     (case template of
        None \<Rightarrow> assessment
      | Some t \<Rightarrow>
          if template_object_type t \<noteq> []
          then assessment\<lparr>assessment_type := template_object_type t\<rparr>
          else assessment)"

definition set_sox_302_enabled :: "assessment \<Rightarrow> assessment_template option \<Rightarrow> assessment" where
  "set_sox_302_enabled assessment template =
     (case template of
        None \<Rightarrow> assessment
      | Some t \<Rightarrow> assessment\<lparr>sox_302_enabled := Some (tmpl_sox_302_enabled t)\<rparr>)"

definition map_to :: "assessment \<Rightarrow> object_ref option \<Rightarrow> assessment" where
  "map_to assessment obj = assessment\<lparr>mapped_to := mapped_to assessment @ [obj]\<rparr>"

subsection \<open>Custom attribute definitions: the batch-insert bucket\<close>

text \<open>
  \<open>mark_cads_loop\<close> is the \<open>for\<close> loop of \<open>_mark_cads_to_batch_insert\<close>; inside it the
  attribute of \<open>flask.g\<close> exists. \<open>_batch_insert_cads\<close> reads the bucket, resets it,
  executes one insert with all the stubs it read, and puts the inserted rows in the cache.
\<close>

definition clone_cad_stub :: "environment \<Rightarrow> cad \<Rightarrow> assessment \<Rightarrow> request \<Rightarrow> cad \<times> request" where
  "clone_cad_stub env cad_stub target g =
     (let (now, g1) = utcnow env g;
          current_user_id = current_user_id env
      in (cad_stub\<lparr>definition_type := table_singular target,
                    definition_id := asmt_id target,
                    created_at := now,
                    updated_at := now,
                    modified_by_id := current_user_id,
                    cad_id := None\<rparr>, g1))"

fun mark_cads_loop :: "environment \<Rightarrow> cad list \<Rightarrow> assessment \<Rightarrow> request \<Rightarrow> request" where
  "mark_cads_loop env [] attributable g = g"
| "mark_cads_loop env (ca_definition # ca_definitions) attributable g =
     (let (new_ca_stub, g1) = clone_cad_stub env ca_definition attributable g
      in mark_cads_loop env ca_definitions attributable
           (g1\<lparr>cads_to_batch_insert :=
                 Some (getattr (cads_to_batch_insert g1) [] @ [new_ca_stub])\<rparr>))"

definition mark_cads_to_batch_insert ::
    "environment \<Rightarrow> cad list \<Rightarrow> assessment \<Rightarrow> request \<Rightarrow> request" where
  "mark_cads_to_batch_insert env ca_definitions attributable g =
     (let g0 = (if cads_to_batch_insert g = None then g\<lparr>cads_to_batch_insert := Some []\<rparr> else g)
      in mark_cads_loop env ca_definitions attributable g0)"

definition batch_insert_cads :: "assessment list \<Rightarrow> request \<Rightarrow> request" where
  "batch_insert_cads attributables g =
     (let cads = getattr (cads_to_batch_insert g) [] in
      if cads = [] then g
      else g\<lparr>cads_to_batch_insert := Some [],
              session := session g @
                [execute_insert_cads cads, cache_new_cads (map asmt_id attributables)]\<rparr>)"

subsection \<open>Assignees: the batch-insert bucket of access control people\<close>

text \<open>
  \<open>relate_person\<close> is the body and \<open>relate_people\<close> the \<open>for\<close> loop of
  \<open>_generate_assignee_relations\<close>; a person without a row in the people table is skipped.
\<close>

definition mark_acps_to_batch_insert ::
    "environment \<Rightarrow> person_id \<Rightarrow> string \<Rightarrow> assessment \<Rightarrow> request \<Rightarrow> request" where
  "mark_acps_to_batch_insert env assignee role_name assessment g =
     (let g0 = (if acps_to_batch_insert g = None then g\<lparr>acps_to_batch_insert := Some []\<rparr> else g)
      in case map_of (acl_with_role_name assessment) role_name of
           None \<Rightarrow> g0
         | Some acl \<Rightarrow>
             (let (now, g1) = utcnow env g0;
                  acp_stub = \<lparr>acp_id = None, person_id = assignee, ac_list_id = acl,
                              acp_created_at = now, acp_updated_at = now,
                              acp_modified_by_id = current_user_id env\<rparr>
              in g1\<lparr>acps_to_batch_insert :=
                      Some (getattr (acps_to_batch_insert g1) [] @ [acp_stub])\<rparr>))"

definition batch_insert_acps :: "assessment list \<Rightarrow> request \<Rightarrow> request" where
  "batch_insert_acps assessments g =
     (let acps = getattr (acps_to_batch_insert g) [] in
      if acps = [] then g
      else g\<lparr>acps_to_batch_insert := Some [],
              session := session g @
                [execute_insert_acps acps, cache_new_acps (map asmt_id assessments)]\<rparr>)"

definition relate_person ::
    "environment \<Rightarrow> assessment \<Rightarrow> person_id list \<Rightarrow> person_id list \<Rightarrow> person_id list
       \<Rightarrow> person_id \<Rightarrow> request \<Rightarrow> request" where
  "relate_person env assessment assignee_ids verifier_ids creator_ids person g =
     (if person \<notin> set (people_table env) then g
      else
        let g1 = (if person \<in> set assignee_ids
                  then mark_acps_to_batch_insert env person ''Assignees'' assessment g else g);
            g2 = (if person \<in> set verifier_ids
                  then mark_acps_to_batch_insert env person ''Verifiers'' assessment g1 else g1)
        in if person \<in> set creator_ids
           then mark_acps_to_batch_insert env person ''Creators'' assessment g2 else g2)"

fun relate_people ::
    "environment \<Rightarrow> assessment \<Rightarrow> person_id list \<Rightarrow> person_id list \<Rightarrow> person_id list
       \<Rightarrow> person_id list \<Rightarrow> request \<Rightarrow> request" where
  "relate_people env assessment assignee_ids verifier_ids creator_ids [] g = g"
| "relate_people env assessment assignee_ids verifier_ids creator_ids (person # people) g =
     relate_people env assessment assignee_ids verifier_ids creator_ids people
       (relate_person env assessment assignee_ids verifier_ids creator_ids person g)"

definition generate_assignee_relations ::
    "environment \<Rightarrow> assessment \<Rightarrow> person_id list \<Rightarrow> person_id list \<Rightarrow> person_id list
       \<Rightarrow> request \<Rightarrow> request" where
  "generate_assignee_relations env assessment assignee_ids verifier_ids creator_ids g =
     (let people = set_order env (assignee_ids @ verifier_ids @ creator_ids)
      in relate_people env assessment assignee_ids verifier_ids creator_ids people g)"

text \<open>
  \<open>_get_people_ids_by_role\<close>. A setting that is missing, empty or \<open>None\<close> is false;
  \<open>dict.get\<close> on the \<open>defaultdict\<close> does not create the key.
\<close>

definition get_people_ids_by_role ::
    "string \<Rightarrow> string \<Rightarrow> (string \<times> people_setting) list \<Rightarrow> (string \<rightharpoonup> person_id list)
       \<Rightarrow> person_id list" where
  "get_people_ids_by_role role_name default_role_name template_settings role_name_people_id_map =
     (case map_of template_settings role_name of
        None \<Rightarrow> []
      | Some (People_ids ids) \<Rightarrow> ids
      | Some (Role_name template_role) \<Rightarrow>
          if template_role = [] then []
          else
            let default_people = role_name_people_id_map default_role_name
            in getattr
                 (case role_name_people_id_map template_role of
                    None \<Rightarrow> default_people
                  | Some ids \<Rightarrow> Some ids) [])"

text \<open>\<open>d[key].append(...)\<close> and \<open>d[key].extend(...)\<close> on a \<open>defaultdict(list)\<close>.\<close>

definition extend :: "(string \<rightharpoonup> 'a list) \<Rightarrow> string \<Rightarrow> 'a list \<Rightarrow> (string \<rightharpoonup> 'a list)" where
  "extend d key xs = d(key \<mapsto> getattr (d key) [] @ xs)"

text \<open>
  \<open>_generate_role_people_map\<close>: \<open>next_role_id\<close> is \<open>next(...)\<close> over the items of the
  roles of \<open>Audit\<close>, \<open>snapshot_acl_loop\<close> the loop over the access control list of the
  snapshot's revision (an entry whose role is unknown or has an empty name is skipped), and
  \<open>role_name_person_id_map\<close> the dictionary the function builds and returns.
\<close>

definition next_role_id :: "(nat \<times> string) list \<Rightarrow> string \<Rightarrow> error + nat" where
  "next_role_id acr name =
     (case find (\<lambda>(role_id, role_name). role_name = name) acr of
        None \<Rightarrow> Inl StopIteration
      | Some (role_id, role_name) \<Rightarrow> Inr role_id)"

fun snapshot_acl_loop ::
    "(nat \<times> string) list \<Rightarrow> acl_entry list \<Rightarrow> (string \<rightharpoonup> person_id list)
       \<Rightarrow> (string \<rightharpoonup> person_id list)" where
  "snapshot_acl_loop acr_dict [] m = m"
| "snapshot_acl_loop acr_dict (acl # acls) m =
     (case map_of acr_dict (ac_role_id acl) of
        None \<Rightarrow> snapshot_acl_loop acr_dict acls m
      | Some acr \<Rightarrow>
          if acr = [] then snapshot_acl_loop acr_dict acls m
          else snapshot_acl_loop acr_dict acls (extend m acr [acl_person_id acl]))"

definition role_name_person_id_map ::
    "(nat \<times> string) list \<Rightarrow> acl_entry list \<Rightarrow> audit \<Rightarrow> nat \<Rightarrow> nat
       \<Rightarrow> (string \<rightharpoonup> person_id list)" where
  "role_name_person_id_map acr_dict acls audit auditor_role_id captain_role_id =
     (let m0 = snapshot_acl_loop acr_dict acls Map.empty;
          m1 = extend m0 ''Audit Lead''
                 (map fst (filter (\<lambda>(person, role). role = captain_role_id)
                             (audit_access_control_list audit)));
          m2 = extend m1 ''Auditors''
                 (map fst (filter (\<lambda>(person, role). role = auditor_role_id)
                             (audit_access_control_list audit)))
      in if getattr (m2 ''Auditors'') [] = []
         then extend m2 ''Auditors'' (getattr (m2 ''Audit Lead'') [])
         else m2)"

definition generate_role_people_map ::
    "environment \<Rightarrow> audit \<Rightarrow> snapshot option \<Rightarrow> revision_content option
       \<Rightarrow> error + (string \<rightharpoonup> person_id list)" where
  "generate_role_people_map env audit snapshot snapshot_rev_content =
     (case snapshot of
        None \<Rightarrow> Inl (AttributeError ''NoneType object has no attribute child_type'')
      | Some snap \<Rightarrow>
        let acr_dict = custom_roles_for env (child_type snap);
            audit_acr = custom_roles_for env ''Audit''
        in case next_role_id audit_acr ''Auditors'' of
             Inl e \<Rightarrow> Inl e
           | Inr auditor_role_id \<Rightarrow>
         (case next_role_id audit_acr ''Audit Captains'' of
             Inl e \<Rightarrow> Inl e
           | Inr captain_role_id \<Rightarrow>
         (case snapshot_rev_content of
             None \<Rightarrow> Inl (TypeError ''NoneType object has no attribute __getitem__'')
           | Some content \<Rightarrow>
         (case rc_access_control_list content of
             None \<Rightarrow> Inl (KeyError ''access_control_list'')
           | Some acls \<Rightarrow>
               Inr (role_name_person_id_map acr_dict acls audit auditor_role_id captain_role_id)))))"

text \<open>The settings that \<open>_relate_assignees\<close> uses when there is no template.\<close>

definition default_template_settings :: "(string \<times> people_setting) list" where
  "default_template_settings =
     [(''assignees'', Role_name ''Principal Assignees''), (''verifiers'', Role_name ''Auditors'')]"

definition relate_assignees ::
    "environment \<Rightarrow> assessment \<Rightarrow> snapshot option \<Rightarrow> revision_content option
       \<Rightarrow> assessment_template option \<Rightarrow> audit \<Rightarrow> request \<Rightarrow> (error + unit) \<times> request" where
  "relate_assignees env assessment snapshot snapshot_rev_content template audit g =
     (let template_settings =
            (case template of
               Some t \<Rightarrow> default_people t
             | None \<Rightarrow> default_template_settings)
      in case generate_role_people_map env audit snapshot snapshot_rev_content of
           Inl e \<Rightarrow> (Inl e, g)
         | Inr role_people_map \<Rightarrow>
             let assignee_ids = get_people_ids_by_role
                   ''assignees'' ''Audit Lead'' template_settings role_people_map;
                 verifier_ids = get_people_ids_by_role
                   ''verifiers'' ''Auditors'' template_settings role_people_map
             in (Inr (), generate_assignee_relations env assessment assignee_ids verifier_ids
                           [current_user_id env] g))"

subsection \<open>The creation hook for one assessment\<close>

text \<open>
  \<open>_handle_assessment\<close>, which \<open>handle_assessment_post\<close> calls for every posted
  assessment. An exception leaves the assessment and the request as they were when it
  was raised.
\<close>

definition handle_assessment ::
    "environment \<Rightarrow> assessment \<Rightarrow> audit \<Rightarrow> assessment_template option \<Rightarrow> snapshot option
       \<Rightarrow> revision_content option \<Rightarrow> bool \<Rightarrow> request
       \<Rightarrow> (error + unit) \<times> assessment \<times> request" where
  "handle_assessment env assessment audit tmpl snapshot snapshot_rev_content is_autogenerated g =
     (let a1 = map_to assessment (map_option (\<lambda>s. Snapshot_ref (snapshot_id s)) snapshot);
          a2 = map_to a1 (Some (Audit_ref (audit_id audit)));
          a3 = (case tmpl of None \<Rightarrow> a2 | Some t \<Rightarrow> set_sox_302_enabled a2 tmpl);
          g1 = (case tmpl of
                  None \<Rightarrow> g
                | Some t \<Rightarrow>
                    mark_cads_to_batch_insert env (custom_attribute_definitions t) a3 g)
      in if \<not> (is_autogenerated \<or> snapshot \<noteq> None) then (Inr (), a3, g1)
         else
           case relate_assignees env a3 snapshot snapshot_rev_content tmpl audit g1 of
             (Inl e, g2) \<Rightarrow> (Inl e, a3, g2)
           | (Inr u, g2) \<Rightarrow>
               (case set_title a3 audit snapshot_rev_content of
                  (Inl e, a4) \<Rightarrow> (Inl e, a4, g2)
                | (Inr u, a4) \<Rightarrow>
                    (case set_test_plan a4 tmpl snapshot_rev_content of
                       (Inl e, a5) \<Rightarrow> (Inl e, a5, g2)
                     | (Inr u, a5) \<Rightarrow> (Inr (), set_assessment_type a5 tmpl, g2))))"

section \<open>Notions used in the statements\<close>

text \<open>
  The condition under which the status check raises, and the condition under which it
  moves a final status back.
\<close>

definition raises_on :: "string \<Rightarrow> assessment \<Rightarrow> bool" where
  "raises_on old_value obj =
     (old_value \<in> NOT_DONE_STATES obj \<and> status obj \<in> DONE_STATES obj \<and>
      preconditions_failed obj = Some True)"

definition final_without_verification :: "assessment \<Rightarrow> bool" where
  "final_without_verification obj =
     (status obj = FINAL_STATE obj \<and> \<not> verified obj \<and>
      \<not> getattr (sox_302_enabled obj) False \<and> getattr (verifiers obj) [] \<noteq> [])"

text \<open>
  The stub made from the definition \<open>d\<close> at the \<open>k\<close>-th reading of the clock, the stubs
  made from a list of definitions, and the calls that a session has received on top of
  an earlier state of the request.
\<close>

definition cad_stub_at :: "environment \<Rightarrow> assessment \<Rightarrow> cad \<Rightarrow> nat \<Rightarrow> cad" where
  "cad_stub_at env target d k =
     d\<lparr>definition_type := table_singular target, definition_id := asmt_id target,
       created_at := clock env k, updated_at := clock env k,
       modified_by_id := current_user_id env, cad_id := None\<rparr>"

fun cad_stubs_from :: "environment \<Rightarrow> assessment \<Rightarrow> nat \<Rightarrow> cad list \<Rightarrow> cad list" where
  "cad_stubs_from env target k [] = []"
| "cad_stubs_from env target k (d # ds) =
     cad_stub_at env target d k # cad_stubs_from env target (Suc k) ds"

definition new_session_calls :: "request \<Rightarrow> request \<Rightarrow> session_call list" where
  "new_session_calls g g' = drop (length (session g)) (session g')"

text \<open>
  The people that the snapshot's access control list gives to a role name, and the
  people that the audit's access control list gives to a role id.
\<close>

definition snapshot_people :: "(nat \<times> string) list \<Rightarrow> acl_entry list \<Rightarrow> string \<Rightarrow> person_id list" where
  "snapshot_people acr_dict acls role =
     map acl_person_id (filter (\<lambda>acl. map_of acr_dict (ac_role_id acl) = Some role) acls)"

definition audit_people :: "audit \<Rightarrow> nat \<Rightarrow> person_id list" where
  "audit_people audit role_id =
     map fst (filter (\<lambda>(person, role). role = role_id) (audit_access_control_list audit))"

text \<open>
  The pairs (person, access control list) of the stubs in the bucket of access control
  people; the pairs that a role of the assessment contributes for a list of person ids
  (people without a row in the people table, and roles without a list, contribute
  nothing); the test plan put together from a template's and a snapshot's.
\<close>

definition acp_pairs :: "request \<Rightarrow> (person_id \<times> nat) list" where
  "acp_pairs g = map (\<lambda>stub. (person_id stub, ac_list_id stub)) (getattr (acps_to_batch_insert g) [])"

definition role_pair :: "assessment \<Rightarrow> string \<Rightarrow> person_id \<Rightarrow> (person_id \<times> nat) list" where
  "role_pair assessment role_name person =
     (case map_of (acl_with_role_name assessment) role_name of
        None \<Rightarrow> []
      | Some acl \<Rightarrow> [(person, acl)])"

definition role_pairs ::
    "environment \<Rightarrow> assessment \<Rightarrow> string \<Rightarrow> person_id list \<Rightarrow> (person_id \<times> nat) set" where
  "role_pairs env assessment role_name ids =
     (case map_of (acl_with_role_name assessment) role_name of
        None \<Rightarrow> {}
      | Some acl \<Rightarrow> (\<lambda>person. (person, acl)) ` (set ids \<inter> set (people_table env)))"




text \<open>
  The assessment and the request as \<open>_handle_assessment\<close> leaves them before it looks at
  the snapshot.
\<close>

definition started_assessment ::
    "assessment \<Rightarrow> audit \<Rightarrow> assessment_template option \<Rightarrow> snapshot option \<Rightarrow> assessment" where
  "started_assessment assessment audit tmpl snapshot =
     assessment\<lparr>mapped_to := mapped_to assessment @
                   [map_option (\<lambda>s. Snapshot_ref (snapshot_id s)) snapshot,
                    Some (Audit_ref (audit_id audit))],
                 sox_302_enabled := (case tmpl of None \<Rightarrow> sox_302_enabled assessment
                                     | Some t \<Rightarrow> Some (tmpl_sox_302_enabled t))\<rparr>"

definition started_request ::
    "environment \<Rightarrow> assessment \<Rightarrow> assessment_template option \<Rightarrow> request \<Rightarrow> request" where
  "started_request env assessment tmpl g =
     (case tmpl of
        None \<Rightarrow> g
      | Some t \<Rightarrow>
          g\<lparr>cads_to_batch_insert :=
              Some (getattr (cads_to_batch_insert g) []
                     @ cad_stubs_from env assessment (utcnow_calls g)
                         (custom_attribute_definitions t)),
            utcnow_calls := utcnow_calls g + length (custom_attribute_definitions t)\<rparr>)"

section \<open>Example inputs\<close>

definition example_assessment :: assessment where
  "example_assessment =
     \<lparr>asmt_id = 7, table_singular = ''assessment'', status = ''Completed'', verified = False,
      preconditions_failed = Some True, sox_302_enabled = None, verifiers = Some [3],
      title = ''Untitled'', test_plan = '''', test_plan_procedure = False, assessment_type = ''Control'',
      acl_with_role_name = [(''Assignees'', 11), (''Verifiers'', 12), (''Creators'', 13)],
      mapped_to = [],
      NOT_DONE_STATES = {''Not Started'', ''In Progress'', ''Rework Needed''},
      DONE_STATES = {''In Review'', ''Verified'', ''Completed''},
      DONE_STATE = ''In Review'', FINAL_STATE = ''Completed''\<rparr>"

definition example_request :: request where
  "example_request = \<lparr>cads_to_batch_insert = None, acps_to_batch_insert = None,
     session = [flush], utcnow_calls = 0\<rparr>"

definition example_environment :: environment where
  "example_environment =
     \<lparr>current_user_id = 1, clock = (\<lambda>k. 1000 + k), people_table = [1, 2, 3, 4],
      set_order = remdups,
      custom_roles_for = (\<lambda>object_type.
        if object_type = ''Audit'' then [(5, ''Audit Captains''), (6, ''Auditors'')]
        else if object_type = ''Control'' then [(20, ''Admin''), (21, ''Principal Assignees'')]
        else [])\<rparr>"

definition example_audit :: audit where
  "example_audit = \<lparr>audit_id = 9, audit_title = ''2019 Audit'',
     audit_access_control_list = [(2, 5)]\<rparr>"

definition example_snapshot :: snapshot where
  "example_snapshot = \<lparr>snapshot_id = 40, child_type = ''Control''\<rparr>"

definition example_content :: revision_content where
  "example_content = \<lparr>rc_title = Some ''Control 1'', rc_test_plan = Some ''Check logs'',
     rc_access_control_list =
       Some [\<lparr>ac_role_id = 21, acl_person_id = 4\<rparr>, \<lparr>ac_role_id = 99, acl_person_id = 3\<rparr>]\<rparr>"

definition example_cad :: cad where
  "example_cad = \<lparr>cad_id = Some 70, definition_type = ''assessment_template'',
     definition_id = 30, created_at = 5, updated_at = 6, modified_by_id = 2,
     cad_fields = [(''title'', ''Evidence''), (''attribute_type'', ''Text'')]\<rparr>"

definition example_template :: assessment_template where
  "example_template = \<lparr>tmpl_sox_302_enabled = True, tmpl_test_plan_procedure = True,
     procedure_description = ''Follow the procedure'', template_object_type = ''Control'',
     default_people = [(''assignees'', Role_name ''Principal Assignees''),
                       (''verifiers'', Role_name ''Auditors'')],
     custom_attribute_definitions = [example_cad]\<rparr>"

definition example_column_order :: "string list" where
  "example_column_order = [''slug'', ''title'', ''description'']"

definition example_attr_list :: "string list" where
  "example_attr_list = [''map:B'', ''Zeta'', ''title'', ''alpha'', ''Map:a'', ''Zeta'', ''slug'']"

section \<open>Properties of the migration\<close>

lemma upgrade_loop_append:
  "upgrade_loop names db = db @ concat (map (\<lambda>n. upgrade_table n []) names)"
proof (induction names arbitrary: db)
  case Nil
  show ?case by simp
next
  case (Cons n names)
  have "upgrade_table n db = db @ upgrade_table n []"
    by (simp add: upgrade_table_def)
  then show ?case
    using Cons.IH [of "upgrade_table n db"] by simp
qed

lemma issued_upgrade:
  "issued db (upgrade names db) = concat (map (\<lambda>n. upgrade_table n []) names)"
  by (simp add: issued_def upgrade_def upgrade_loop_append [of names db])

lemma filter_upgrade_table_other:
  "m \<noteq> n \<Longrightarrow> filter (\<lambda>x. op_table x = n) (upgrade_table m []) = []"
  by (simp add: upgrade_table_def)

lemma filter_upgrade_table_same:
  "filter (\<lambda>x. op_table x = n) (upgrade_table n []) = upgrade_table n []"
  by (simp add: upgrade_table_def)

lemma filter_concat_absent:
  "n \<notin> set names \<Longrightarrow>
   filter (\<lambda>x. op_table x = n) (concat (map (\<lambda>m. upgrade_table m []) names)) = []"
  by (induction names) (auto simp: filter_upgrade_table_other)

lemma filter_concat_present:
  "distinct names \<Longrightarrow> n \<in> set names \<Longrightarrow>
   filter (\<lambda>x. op_table x = n) (concat (map (\<lambda>m. upgrade_table m []) names))
     = upgrade_table n []"
proof (induction names)
  case Nil
  then show ?case by simp
next
  case (Cons m names)
  show ?case
  proof (cases "m = n")
    case True
    with Cons.prems have "n \<notin> set names" by simp
    with True show ?thesis
      by (simp add: filter_upgrade_table_same filter_concat_absent)
  next
    case False
    with Cons show ?thesis
      by (simp add: filter_upgrade_table_other)
  qed
qed

lemma scope_tables_order_enumerates: "enumerates scope_tables_order scope_tables_names"
  by (simp add: enumerates_def scope_tables_order_def scope_tables_names_def)

text \<open>
  C1. For every table name of \<open>scope_tables_names\<close>, whatever the order in which the set
  is enumerated and whatever the database has received before, the operations that
  \<open>upgrade\<close> issues against that table are exactly: three added columns, namely
  \<open>external_id\<close> (integer, nullable), \<open>external_slug\<close> (string of 255, nullable) and
  \<open>created_by_id\<close> (integer, nullable), then a unique constraint on \<open>external_id\<close>
  and a unique constraint on \<open>external_slug\<close>.
\<close>

theorem upgrade_extends_scope_table:
  assumes "enumerates names scope_tables_names"
    and "name \<in> scope_tables_names"
  shows "filter (\<lambda>x. op_table x = name) (issued db (upgrade names db)) =
     [add_column name
        \<lparr>col_name = ''external_id'', col_type = SA_Integer,
         autoincrement = Some False, nullable = True\<rparr>,
      add_column name
        \<lparr>col_name = ''external_slug'', col_type = SA_String 255,
         autoincrement = Some False, nullable = True\<rparr>,
      add_column name
        \<lparr>col_name = ''created_by_id'', col_type = SA_Integer,
         autoincrement = None, nullable = True\<rparr>,
      create_unique_constraint ''uq_external_id'' name [''external_id''],
      create_unique_constraint ''uq_external_slug'' name [''external_slug'']]"
proof -
  from assms have d: "distinct names" and m: "name \<in> set names"
    by (simp_all add: enumerates_def)
  have "filter (\<lambda>x. op_table x = name) (issued db (upgrade names db)) = upgrade_table name []"
    by (simp add: issued_upgrade filter_concat_present [OF d m])
  then show ?thesis
    by (simp add: upgrade_table_def)
qed

theorem upgrade_extends_scope_table_witness:
  "enumerates scope_tables_order scope_tables_names \<and>
   ''vendors'' \<in> scope_tables_names \<and>
   filter (\<lambda>x. op_table x = ''vendors'') (issued [] (upgrade scope_tables_order [])) =
     [add_column ''vendors''
        \<lparr>col_name = ''external_id'', col_type = SA_Integer,
         autoincrement = Some False, nullable = True\<rparr>,
      add_column ''vendors''
        \<lparr>col_name = ''external_slug'', col_type = SA_String 255,
         autoincrement = Some False, nullable = True\<rparr>,
      add_column ''vendors''
        \<lparr>col_name = ''created_by_id'', col_type = SA_Integer,
         autoincrement = None, nullable = True\<rparr>,
      create_unique_constraint ''uq_external_id'' ''vendors'' [''external_id''],
      create_unique_constraint ''uq_external_slug'' ''vendors'' [''external_slug'']]"
proof -
  have e: "enumerates scope_tables_order scope_tables_names"
    by (rule scope_tables_order_enumerates)
  have v: "''vendors'' \<in> scope_tables_names"
    by (simp add: scope_tables_names_def)
  show ?thesis
    using e v upgrade_extends_scope_table [OF e v, of "[]"] by simp
qed

text \<open>
  C4. For every database state, \<open>downgrade\<close> raises \<open>NotImplementedError\<close> and
  leaves the database as it was: no operation is issued.
\<close>

theorem downgrade_raises:
  "fst (downgrade db) = Inl (NotImplementedError ''Downgrade is not supported'') \<and>
   snd (downgrade db) = db \<and> issued db (snd (downgrade db)) = []"
  by (simp add: downgrade_def issued_def)

section \<open>Properties of the column order\<close>

lemma set_default_attrs:
  "set (default_attrs COLUMN_ORDER attr_list) = set COLUMN_ORDER \<inter> set attr_list"
  by (auto simp: default_attrs_def)

lemma other_attrs_filter:
  "other_attrs COLUMN_ORDER attr_list = filter (\<lambda>v. v \<notin> set COLUMN_ORDER) attr_list"
  unfolding other_attrs_def Let_def set_default_attrs
  by (rule filter_cong) auto

lemma mset_custom_attrs:
  "mset (custom_attrs COLUMN_ORDER attr_list) =
   mset (filter (\<lambda>v. v \<notin> set COLUMN_ORDER \<and> \<not> startswith (lower v) ''map:'') attr_list)"
  by (simp add: custom_attrs_def other_attrs_filter conj_commute)

lemma mset_mapping_attrs:
  "mset (mapping_attrs COLUMN_ORDER attr_list) =
   mset (filter (\<lambda>v. v \<notin> set COLUMN_ORDER \<and> startswith (lower v) ''map:'') attr_list)"
  by (simp add: mapping_attrs_def other_attrs_filter conj_commute)

lemma set_get_column_order:
  "set (get_column_order COLUMN_ORDER attr_list) = set attr_list"
proof -
  have c: "set (custom_attrs COLUMN_ORDER attr_list) =
      {v \<in> set attr_list. v \<notin> set COLUMN_ORDER \<and> \<not> startswith (lower v) ''map:''}"
    using arg_cong [OF mset_custom_attrs, of set_mset] by auto
  have m: "set (mapping_attrs COLUMN_ORDER attr_list) =
      {v \<in> set attr_list. v \<notin> set COLUMN_ORDER \<and> startswith (lower v) ''map:''}"
    using arg_cong [OF mset_mapping_attrs, of set_mset] by auto
  show ?thesis
    unfolding get_column_order_def set_append set_default_attrs c m by blast
qed

text \<open>
  C9. Provided \<open>COLUMN_ORDER\<close> has no duplicates, \<open>get_column_order\<close> returns three
  parts in a row. The first holds the attributes of \<open>COLUMN_ORDER\<close> that occur in the input,
  in the order of \<open>COLUMN_ORDER\<close> and without duplicates. The second holds the other
  attributes whose lowercase form does not start with \<open>map:\<close>, as often as the input has
  them, sorted by their lowercase form. The third holds the other attributes whose
  lowercase form starts with \<open>map:\<close>, sorted by their lowercase form. The output has
  exactly the elements of the input.
\<close>

theorem get_column_order_spec:
  assumes "distinct COLUMN_ORDER"
  shows "get_column_order COLUMN_ORDER attr_list =
       default_attrs COLUMN_ORDER attr_list @ custom_attrs COLUMN_ORDER attr_list
         @ mapping_attrs COLUMN_ORDER attr_list
     \<and> subseq (default_attrs COLUMN_ORDER attr_list) COLUMN_ORDER
     \<and> set (default_attrs COLUMN_ORDER attr_list) = set COLUMN_ORDER \<inter> set attr_list
     \<and> distinct (default_attrs COLUMN_ORDER attr_list)
     \<and> mset (custom_attrs COLUMN_ORDER attr_list) =
         mset (filter (\<lambda>v. v \<notin> set COLUMN_ORDER \<and> \<not> startswith (lower v) ''map:'') attr_list)
     \<and> sorted (map lower (custom_attrs COLUMN_ORDER attr_list))
     \<and> mset (mapping_attrs COLUMN_ORDER attr_list) =
         mset (filter (\<lambda>v. v \<notin> set COLUMN_ORDER \<and> startswith (lower v) ''map:'') attr_list)
     \<and> sorted (map lower (mapping_attrs COLUMN_ORDER attr_list))
     \<and> set (get_column_order COLUMN_ORDER attr_list) = set attr_list"
proof -
  have "subseq (default_attrs COLUMN_ORDER attr_list) COLUMN_ORDER"
    by (simp add: default_attrs_def)
  moreover have "distinct (default_attrs COLUMN_ORDER attr_list)"
    using assms by (simp add: default_attrs_def)
  moreover have "sorted (map lower (custom_attrs COLUMN_ORDER attr_list))"
    by (simp add: custom_attrs_def)
  moreover have "sorted (map lower (mapping_attrs COLUMN_ORDER attr_list))"
    by (simp add: mapping_attrs_def)
  ultimately show ?thesis
    using set_default_attrs mset_custom_attrs mset_mapping_attrs set_get_column_order
    by (simp add: get_column_order_def)
qed

theorem get_column_order_spec_witness:
  "distinct example_column_order
   \<and> get_column_order example_column_order example_attr_list =
       [''slug'', ''title'', ''alpha'', ''Zeta'', ''Zeta'', ''Map:a'', ''map:B'']
   \<and> default_attrs example_column_order example_attr_list = [''slug'', ''title'']
   \<and> custom_attrs example_column_order example_attr_list = [''alpha'', ''Zeta'', ''Zeta'']
   \<and> mapping_attrs example_column_order example_attr_list = [''Map:a'', ''map:B'']
   \<and> sorted (map lower (custom_attrs example_column_order example_attr_list))
   \<and> sorted (map lower (mapping_attrs example_column_order example_attr_list))
   \<and> set (get_column_order example_column_order example_attr_list) = set example_attr_list"
proof -
  have d: "distinct example_column_order"
    by (simp add: example_column_order_def)
  have a: "default_attrs example_column_order example_attr_list = [''slug'', ''title'']"
    by code_simp
  have c: "custom_attrs example_column_order example_attr_list = [''alpha'', ''Zeta'', ''Zeta'']"
    by code_simp
  have m: "mapping_attrs example_column_order example_attr_list = [''Map:a'', ''map:B'']"
    by code_simp
  from get_column_order_spec [OF d, of example_attr_list]
  have "get_column_order example_column_order example_attr_list =
       default_attrs example_column_order example_attr_list
         @ custom_attrs example_column_order example_attr_list
         @ mapping_attrs example_column_order example_attr_list"
    and "sorted (map lower (custom_attrs example_column_order example_attr_list))"
    and "sorted (map lower (mapping_attrs example_column_order example_attr_list))"
    and "set (get_column_order example_column_order example_attr_list) = set example_attr_list"
    by blast+
  then show ?thesis
    using d a c m by simp
qed

section \<open>Properties of the status check\<close>

lemma validate_raises:
  "raises_on old_value obj \<Longrightarrow>
   validate_assessment_done_state old_value obj = (Inl preconditions_not_satisfied, obj)"
  by (simp add: validate_assessment_done_state_def raises_on_def getattr_def)

lemma validate_returns:
  "\<not> raises_on old_value obj \<Longrightarrow>
   validate_assessment_done_state old_value obj =
     (Inr (), if final_without_verification obj then obj\<lparr>status := DONE_STATE obj\<rparr> else obj)"
  by (auto simp: validate_assessment_done_state_def raises_on_def getattr_def
      final_without_verification_def Let_def split: option.splits)

lemma validate_error_cases:
  "fst (validate_assessment_done_state old_value obj) = Inl e \<Longrightarrow>
   e = preconditions_not_satisfied \<and> raises_on old_value obj"
  by (cases "raises_on old_value obj") (simp_all add: validate_raises validate_returns)

lemma is_StatusValidationError_preconditions:
  "is_StatusValidationError preconditions_not_satisfied"
  by (simp add: preconditions_not_satisfied_def)

lemma example_raises_on: "raises_on ''In Progress'' example_assessment"
  by (simp add: raises_on_def example_assessment_def)

text \<open>
  C2. When the old status is one of \<open>NOT_DONE_STATES\<close>, the new status is one of
  \<open>DONE_STATES\<close> and the attribute \<open>preconditions_failed\<close> exists and is true, the check
  raises a \<open>StatusValidationError\<close>, and so does the handler of
  \<open>model_put_before_commit\<close>.
\<close>

theorem done_state_with_failed_preconditions_raises:
  assumes "status initial_state \<in> NOT_DONE_STATES obj"
    and "status obj \<in> DONE_STATES obj"
    and "preconditions_failed obj = Some True"
  shows "fst (validate_assessment_done_state (status initial_state) obj)
           = Inl preconditions_not_satisfied
     \<and> fst (handle_assessment_done_state obj initial_state g) = Inl preconditions_not_satisfied
     \<and> is_StatusValidationError preconditions_not_satisfied"
proof -
  from assms have "raises_on (status initial_state) obj"
    by (simp add: raises_on_def)
  then show ?thesis
    by (simp add: handle_assessment_done_state_def validate_raises
        is_StatusValidationError_preconditions)
qed

theorem done_state_with_failed_preconditions_raises_witness:
  "status (example_assessment\<lparr>status := ''In Progress''\<rparr>) \<in> NOT_DONE_STATES example_assessment
   \<and> status example_assessment \<in> DONE_STATES example_assessment
   \<and> preconditions_failed example_assessment = Some True
   \<and> fst (handle_assessment_done_state example_assessment
            (example_assessment\<lparr>status := ''In Progress''\<rparr>) example_request)
       = Inl preconditions_not_satisfied"
proof -
  have a: "status (example_assessment\<lparr>status := ''In Progress''\<rparr>)
             \<in> NOT_DONE_STATES example_assessment"
    and b: "status example_assessment \<in> DONE_STATES example_assessment"
    and c: "preconditions_failed example_assessment = Some True"
    by (simp_all add: example_assessment_def)
  show ?thesis
    using a b c done_state_with_failed_preconditions_raises [OF a b c, of example_request]
    by simp
qed

text \<open>
  C3. Whenever the check raises a \<open>StatusValidationError\<close>, the handler raises the same
  error, and the one thing it has done before is to call \<open>rollback\<close> on the session: the
  object and the rest of the request are as they were.
\<close>

theorem validation_error_rolls_back_and_reraises:
  assumes "fst (validate_assessment_done_state (status initial_state) obj) = Inl e"
    and "is_StatusValidationError e"
  shows "handle_assessment_done_state obj initial_state g =
           (Inl e, obj, g\<lparr>session := session g @ [rollback]\<rparr>)"
proof -
  from assms(1) have e: "e = preconditions_not_satisfied"
    and r: "raises_on (status initial_state) obj"
    using validate_error_cases by blast+
  show ?thesis
    by (simp add: handle_assessment_done_state_def validate_raises [OF r] e
        is_StatusValidationError_preconditions)
qed

theorem validation_error_rolls_back_and_reraises_witness:
  "fst (validate_assessment_done_state (status (example_assessment\<lparr>status := ''In Progress''\<rparr>))
          example_assessment) = Inl preconditions_not_satisfied
   \<and> is_StatusValidationError preconditions_not_satisfied
   \<and> handle_assessment_done_state example_assessment
        (example_assessment\<lparr>status := ''In Progress''\<rparr>) example_request =
       (Inl preconditions_not_satisfied, example_assessment,
        example_request\<lparr>session := [flush, rollback]\<rparr>)"
proof -
  have a: "fst (validate_assessment_done_state
             (status (example_assessment\<lparr>status := ''In Progress''\<rparr>)) example_assessment)
           = Inl preconditions_not_satisfied"
    using example_raises_on by (simp add: validate_raises)
  have b: "is_StatusValidationError preconditions_not_satisfied"
    by (rule is_StatusValidationError_preconditions)
  have c: "session example_request = [flush]"
    by (simp add: example_request_def)
  show ?thesis
    using a b validation_error_rolls_back_and_reraises [OF a b, of example_request]
    by (simp add: c)
qed

text \<open>
  C8, as stated, fails: an assessment in the final state, not verified, without
  \<open>sox_302_enabled\<close> and with a verifier keeps its final status when the check raises
  because the completion preconditions failed.
\<close>

theorem final_state_not_downgraded_counterexample:
  "status example_assessment = FINAL_STATE example_assessment
   \<and> \<not> verified example_assessment
   \<and> \<not> getattr (sox_302_enabled example_assessment) False
   \<and> getattr (verifiers example_assessment) [] \<noteq> []
   \<and> status (snd (validate_assessment_done_state ''In Progress'' example_assessment))
        = FINAL_STATE example_assessment
   \<and> status (snd (validate_assessment_done_state ''In Progress'' example_assessment))
        \<noteq> DONE_STATE example_assessment"
proof -
  have "validate_assessment_done_state ''In Progress'' example_assessment
          = (Inl preconditions_not_satisfied, example_assessment)"
    using example_raises_on by (rule validate_raises)
  then show ?thesis
    by (simp add: example_assessment_def getattr_def)
qed

text \<open>
  C8, amended. The check raises exactly when the old status is not done, the new one is
  done and the preconditions failed. When it does not raise and the status is
  \<open>FINAL_STATE\<close>, the assessment is not verified, \<open>sox_302_enabled\<close> is false or absent and
  there is a verifier, the status becomes \<open>DONE_STATE\<close>; in every other case, also when
  the check raises, the object is left as it was.
\<close>

theorem final_state_downgraded_unless_raised:
  "fst (validate_assessment_done_state old_value obj) =
     (if raises_on old_value obj then Inl preconditions_not_satisfied else Inr ())
   \<and> snd (validate_assessment_done_state old_value obj) =
     (if \<not> raises_on old_value obj \<and> final_without_verification obj
      then obj\<lparr>status := DONE_STATE obj\<rparr> else obj)"
  by (cases "raises_on old_value obj") (simp_all add: validate_raises validate_returns)

theorem final_state_downgraded_unless_raised_witness:
  "\<not> raises_on ''In Review'' example_assessment
   \<and> final_without_verification example_assessment
   \<and> fst (validate_assessment_done_state ''In Review'' example_assessment) = Inr ()
   \<and> status (snd (validate_assessment_done_state ''In Review'' example_assessment))
       = ''In Review''
   \<and> raises_on ''In Progress'' example_assessment
   \<and> status (snd (validate_assessment_done_state ''In Progress'' example_assessment))
       = ''Completed''"
proof -
  have n: "\<not> raises_on ''In Review'' example_assessment"
    by (simp add: raises_on_def example_assessment_def)
  have f: "final_without_verification example_assessment"
    by (simp add: final_without_verification_def example_assessment_def getattr_def)
  have s: "status example_assessment = ''Completed''" "DONE_STATE example_assessment = ''In Review''"
    by (simp_all add: example_assessment_def)
  show ?thesis
    using n f example_raises_on
      final_state_downgraded_unless_raised [of "''In Review''" example_assessment]
      final_state_downgraded_unless_raised [of "''In Progress''" example_assessment]
    by (simp add: s)
qed

section \<open>Properties of the bucket of custom attribute definitions\<close>

lemma clone_cad_stub_eq:
  "clone_cad_stub env d target g =
     (cad_stub_at env target d (utcnow_calls g), g\<lparr>utcnow_calls := Suc (utcnow_calls g)\<rparr>)"
  by (simp add: clone_cad_stub_def utcnow_def cad_stub_at_def)

lemma mark_cads_loop_eq:
  "cads_to_batch_insert g = Some b \<Longrightarrow>
   mark_cads_loop env defs target g =
     g\<lparr>cads_to_batch_insert := Some (b @ cad_stubs_from env target (utcnow_calls g) defs),
       utcnow_calls := utcnow_calls g + length defs\<rparr>"
proof (induction defs arbitrary: g b)
  case Nil
  then show ?case by simp
next
  case (Cons d ds)
  let ?g = "g\<lparr>utcnow_calls := Suc (utcnow_calls g),
              cads_to_batch_insert := Some (b @ [cad_stub_at env target d (utcnow_calls g)])\<rparr>"
  have "cads_to_batch_insert ?g = Some (b @ [cad_stub_at env target d (utcnow_calls g)])"
    by simp
  from Cons.IH [OF this] Cons.prems show ?case
    by (simp add: clone_cad_stub_eq getattr_def)
qed

lemma mark_cads_to_batch_insert_eq:
  "mark_cads_to_batch_insert env defs target g =
     g\<lparr>cads_to_batch_insert :=
         Some (getattr (cads_to_batch_insert g) []
                @ cad_stubs_from env target (utcnow_calls g) defs),
       utcnow_calls := utcnow_calls g + length defs\<rparr>"
proof (cases "cads_to_batch_insert g")
  case None
  have "cads_to_batch_insert (g\<lparr>cads_to_batch_insert := Some []\<rparr>) = Some []" by simp
  from mark_cads_loop_eq [OF this] None show ?thesis
    by (simp add: mark_cads_to_batch_insert_def getattr_def)
next
  case (Some b)
  from mark_cads_loop_eq [OF Some] Some show ?thesis
    by (simp add: mark_cads_to_batch_insert_def getattr_def)
qed

lemma length_cad_stubs_from: "length (cad_stubs_from env target k defs) = length defs"
  by (induction defs arbitrary: k) simp_all

lemma nth_cad_stubs_from:
  "i < length defs \<Longrightarrow>
   cad_stubs_from env target k defs ! i = cad_stub_at env target (defs ! i) (k + i)"
proof (induction defs arbitrary: k i)
  case Nil
  then show ?case by simp
next
  case (Cons d ds)
  then show ?case by (cases i) simp_all
qed

lemma batch_insert_cads_empties:
  "getattr (cads_to_batch_insert (batch_insert_cads attributables g)) [] = []"
  by (simp add: batch_insert_cads_def Let_def getattr_def split: option.splits)

lemma batch_insert_cads_calls:
  "new_session_calls g (batch_insert_cads attributables g) =
     (if getattr (cads_to_batch_insert g) [] = [] then []
      else [execute_insert_cads (getattr (cads_to_batch_insert g) []),
            cache_new_cads (map asmt_id attributables)])"
  by (simp add: batch_insert_cads_def Let_def new_session_calls_def)

lemma batch_insert_cads_again:
  "batch_insert_cads others (batch_insert_cads attributables g) = batch_insert_cads attributables g"
  using batch_insert_cads_empties [of attributables g]
  by (simp add: batch_insert_cads_def [of others] Let_def)

text \<open>
  C7. \<open>_mark_cads_to_batch_insert\<close> appends one stub for each definition to the bucket
  \<open>flask.g.cads_to_batch_insert\<close>, after what the bucket held, and changes nothing else but
  the count of clock readings. \<open>_batch_insert_cads\<close> executes one insert with exactly the
  stubs of the bucket (and none when the bucket is empty) and leaves the bucket empty; a
  second call right after it changes nothing and issues no call.
\<close>

theorem cads_bucket_filled_and_flushed_once:
  "mark_cads_to_batch_insert env defs target g =
     g\<lparr>cads_to_batch_insert :=
         Some (getattr (cads_to_batch_insert g) []
                @ cad_stubs_from env target (utcnow_calls g) defs),
       utcnow_calls := utcnow_calls g + length defs\<rparr>
   \<and> length (cad_stubs_from env target (utcnow_calls g) defs) = length defs
   \<and> new_session_calls g (batch_insert_cads attributables g) =
       (if getattr (cads_to_batch_insert g) [] = [] then []
        else [execute_insert_cads (getattr (cads_to_batch_insert g) []),
              cache_new_cads (map asmt_id attributables)])
   \<and> getattr (cads_to_batch_insert (batch_insert_cads attributables g)) [] = []
   \<and> batch_insert_cads others (batch_insert_cads attributables g)
       = batch_insert_cads attributables g
   \<and> new_session_calls (batch_insert_cads attributables g)
        (batch_insert_cads others (batch_insert_cads attributables g)) = []"
proof -
  have "new_session_calls (batch_insert_cads attributables g)
          (batch_insert_cads others (batch_insert_cads attributables g)) = []"
    by (simp add: batch_insert_cads_again new_session_calls_def)
  then show ?thesis
    using mark_cads_to_batch_insert_eq [of env defs target g]
      length_cad_stubs_from [of env target "utcnow_calls g" defs]
      batch_insert_cads_calls [of g attributables]
      batch_insert_cads_empties [of attributables g]
      batch_insert_cads_again [of others attributables g]
    by blast
qed

theorem cads_bucket_filled_and_flushed_once_witness:
  "cads_to_batch_insert
     (mark_cads_to_batch_insert example_environment [example_cad] example_assessment example_request)
     = Some [cad_stub_at example_environment example_assessment example_cad 0]
   \<and> new_session_calls
       (mark_cads_to_batch_insert example_environment [example_cad] example_assessment
          example_request)
       (batch_insert_cads [example_assessment]
          (mark_cads_to_batch_insert example_environment [example_cad] example_assessment
             example_request))
     = [execute_insert_cads [cad_stub_at example_environment example_assessment example_cad 0],
        cache_new_cads [7]]
   \<and> cads_to_batch_insert
       (batch_insert_cads [example_assessment]
          (mark_cads_to_batch_insert example_environment [example_cad] example_assessment
             example_request)) = Some []"
proof -
  let ?g = "mark_cads_to_batch_insert example_environment [example_cad] example_assessment
              example_request"
  have b: "cads_to_batch_insert ?g =
      Some [cad_stub_at example_environment example_assessment example_cad 0]"
    using cads_bucket_filled_and_flushed_once [of example_environment "[example_cad]"
        example_assessment example_request]
    by (simp add: example_request_def getattr_def)
  have i: "asmt_id example_assessment = 7"
    by (simp add: example_assessment_def)
  have "new_session_calls ?g (batch_insert_cads [example_assessment] ?g) =
      [execute_insert_cads [cad_stub_at example_environment example_assessment example_cad 0],
       cache_new_cads [7]]"
    using cads_bucket_filled_and_flushed_once [of example_environment "[]"
        example_assessment ?g "[example_assessment]"]
    by (simp add: b getattr_def i)
  moreover have "cads_to_batch_insert (batch_insert_cads [example_assessment] ?g) = Some []"
    by (simp add: batch_insert_cads_def b getattr_def)
  ultimately show ?thesis
    using b by simp
qed

section \<open>Properties of the role map\<close>

lemma getattr_extend:
  "getattr (extend d key xs key') [] = (if key' = key then getattr (d key) [] @ xs else getattr (d key') [])"
  by (simp add: extend_def getattr_def)

lemma extend_same: "extend d key xs key = Some (getattr (d key) [] @ xs)"
  by (simp add: extend_def)

lemma extend_other: "key' \<noteq> key \<Longrightarrow> extend d key xs key' = d key'"
  by (simp add: extend_def)

lemma snapshot_acl_loop_get:
  "role \<noteq> [] \<Longrightarrow>
   getattr (snapshot_acl_loop acr_dict acls m role) [] =
     getattr (m role) [] @ snapshot_people acr_dict acls role"
proof (induction acls arbitrary: m)
  case Nil
  then show ?case by (simp add: snapshot_people_def)
next
  case (Cons acl acls)
  show ?case
  proof (cases "map_of acr_dict (ac_role_id acl)")
    case None
    with Cons show ?thesis by (simp add: snapshot_people_def)
  next
    case (Some acr)
    show ?thesis
    proof (cases "acr = []")
      case True
      with Some Cons show ?thesis by (auto simp: snapshot_people_def)
    next
      case False
      have "getattr (snapshot_acl_loop acr_dict acls (extend m acr [acl_person_id acl]) role) [] =
            getattr (extend m acr [acl_person_id acl] role) [] @ snapshot_people acr_dict acls role"
        by (rule Cons.IH [OF Cons.prems])
      with Some False show ?thesis
        by (auto simp: snapshot_people_def getattr_extend)
    qed
  qed
qed

lemma role_name_person_id_map_leads:
  "role_name_person_id_map acr_dict acls audit auditor_role_id captain_role_id ''Audit Lead'' =
     Some (snapshot_people acr_dict acls ''Audit Lead'' @ audit_people audit captain_role_id)"
  by (simp add: role_name_person_id_map_def Let_def extend_same extend_other
      snapshot_acl_loop_get audit_people_def getattr_def [of None])

lemma role_name_person_id_map_auditors:
  "role_name_person_id_map acr_dict acls audit auditor_role_id captain_role_id ''Auditors'' =
     Some (if snapshot_people acr_dict acls ''Auditors'' @ audit_people audit auditor_role_id = []
           then snapshot_people acr_dict acls ''Audit Lead'' @ audit_people audit captain_role_id
           else snapshot_people acr_dict acls ''Auditors'' @ audit_people audit auditor_role_id)"
proof -
  let ?m0 = "snapshot_acl_loop acr_dict acls Map.empty"
  let ?m1 = "extend ?m0 ''Audit Lead'' (audit_people audit captain_role_id)"
  let ?m2 = "extend ?m1 ''Auditors'' (audit_people audit auditor_role_id)"
  have a: "getattr (?m2 ''Auditors'') [] =
      snapshot_people acr_dict acls ''Auditors'' @ audit_people audit auditor_role_id"
    by (simp add: getattr_extend snapshot_acl_loop_get getattr_def [of None])
  have l: "getattr (?m2 ''Audit Lead'') [] =
      snapshot_people acr_dict acls ''Audit Lead'' @ audit_people audit captain_role_id"
    by (simp add: getattr_extend snapshot_acl_loop_get getattr_def [of None])
  have s: "?m2 ''Auditors'' = Some (getattr (?m2 ''Auditors'') [])"
    by (simp add: extend_same getattr_def)
  have "role_name_person_id_map acr_dict acls audit auditor_role_id captain_role_id =
      (if getattr (?m2 ''Auditors'') [] = []
       then extend ?m2 ''Auditors'' (getattr (?m2 ''Audit Lead'') []) else ?m2)"
    by (simp add: role_name_person_id_map_def Let_def audit_people_def)
  then have r: "role_name_person_id_map acr_dict acls audit auditor_role_id captain_role_id
        ''Auditors'' =
      (if getattr (?m2 ''Auditors'') [] = []
       then extend ?m2 ''Auditors'' (getattr (?m2 ''Audit Lead'') []) ''Auditors''
       else ?m2 ''Auditors'')"
    by simp
  show ?thesis
  proof (cases "getattr (?m2 ''Auditors'') [] = []")
    case True
    have "extend ?m2 ''Auditors'' (getattr (?m2 ''Audit Lead'') []) ''Auditors'' =
        Some (getattr (?m2 ''Auditors'') [] @ getattr (?m2 ''Audit Lead'') [])"
      by (rule extend_same)
    with True r have "role_name_person_id_map acr_dict acls audit auditor_role_id
        captain_role_id ''Auditors'' = Some (getattr (?m2 ''Audit Lead'') [])"
      by simp
    with True show ?thesis
      unfolding a l by auto
  next
    case False
    with r s have "role_name_person_id_map acr_dict acls audit auditor_role_id
        captain_role_id ''Auditors'' = Some (getattr (?m2 ''Auditors'') [])"
      by simp
    with False show ?thesis
      unfolding a by auto
  qed
qed

lemma generate_role_people_map_returns:
  assumes "snapshot = Some snap"
    and "snapshot_rev_content = Some content"
    and "rc_access_control_list content = Some acls"
    and "next_role_id (custom_roles_for env ''Audit'') ''Auditors'' = Inr auditor_role_id"
    and "next_role_id (custom_roles_for env ''Audit'') ''Audit Captains'' = Inr captain_role_id"
  shows "generate_role_people_map env audit snapshot snapshot_rev_content =
     Inr (role_name_person_id_map (custom_roles_for env (child_type snap)) acls audit
            auditor_role_id captain_role_id)"
  using assms by (simp add: generate_role_people_map_def)


lemma example_auditor_role:
  "next_role_id (custom_roles_for example_environment ''Audit'') ''Auditors'' = Inr 6"
  by (simp add: example_environment_def next_role_id_def)

lemma example_captain_role:
  "next_role_id (custom_roles_for example_environment ''Audit'') ''Audit Captains'' = Inr 5"
  by (simp add: example_environment_def next_role_id_def)

lemma example_content_acl:
  "rc_access_control_list example_content =
     Some [\<lparr>ac_role_id = 21, acl_person_id = 4\<rparr>, \<lparr>ac_role_id = 99, acl_person_id = 3\<rparr>]"
  by (simp add: example_content_def)


text \<open>
  C10. When \<open>_generate_role_people_map\<close> has a snapshot, an access control list in the
  revision content and the two roles of \<open>Audit\<close>, it returns a map in which
  \<open>Audit Lead\<close> holds the people the snapshot gives to a role of that name followed by the
  audit captains. If neither the snapshot nor the audit gives anybody to \<open>Auditors\<close>, the
  entry \<open>Auditors\<close> is that list of \<open>Audit Lead\<close>; otherwise it is the auditors of the
  snapshot followed by those of the audit, and no captain is added.
\<close>

theorem captains_stand_in_for_missing_auditors:
  assumes "snapshot = Some snap"
    and "snapshot_rev_content = Some content"
    and "rc_access_control_list content = Some acls"
    and "next_role_id (custom_roles_for env ''Audit'') ''Auditors'' = Inr auditor_role_id"
    and "next_role_id (custom_roles_for env ''Audit'') ''Audit Captains'' = Inr captain_role_id"
    and "auditors = snapshot_people (custom_roles_for env (child_type snap)) acls ''Auditors''
                      @ audit_people audit auditor_role_id"
    and "leads = snapshot_people (custom_roles_for env (child_type snap)) acls ''Audit Lead''
                   @ audit_people audit captain_role_id"
  shows "\<exists>m. generate_role_people_map env audit snapshot snapshot_rev_content = Inr m
           \<and> m ''Audit Lead'' = Some leads
           \<and> m ''Auditors'' = Some (if auditors = [] then leads else auditors)"
  using generate_role_people_map_returns [OF assms(1-5)] assms(6,7)
  by (simp add: role_name_person_id_map_leads role_name_person_id_map_auditors)

theorem captains_stand_in_for_missing_auditors_witness:
  "Some example_snapshot = Some example_snapshot
   \<and> rc_access_control_list example_content =
       Some [\<lparr>ac_role_id = 21, acl_person_id = 4\<rparr>, \<lparr>ac_role_id = 99, acl_person_id = 3\<rparr>]
   \<and> next_role_id (custom_roles_for example_environment ''Audit'') ''Auditors'' = Inr 6
   \<and> next_role_id (custom_roles_for example_environment ''Audit'') ''Audit Captains'' = Inr 5
   \<and> (\<exists>m. generate_role_people_map example_environment example_audit (Some example_snapshot)
              (Some example_content) = Inr m
          \<and> m ''Audit Lead'' = Some [2] \<and> m ''Auditors'' = Some [2])"
proof -
  let ?acls = "[\<lparr>ac_role_id = 21, acl_person_id = 4\<rparr>, \<lparr>ac_role_id = 99, acl_person_id = 3\<rparr>]"
  have a: "[] = snapshot_people (custom_roles_for example_environment (child_type example_snapshot))
                  ?acls ''Auditors'' @ audit_people example_audit 6"
    by code_simp
  have l: "[2] = snapshot_people (custom_roles_for example_environment (child_type example_snapshot))
                  ?acls ''Audit Lead'' @ audit_people example_audit 5"
    by code_simp
  show ?thesis
    using captains_stand_in_for_missing_auditors [where audit = example_audit
        and env = example_environment and snap = example_snapshot
        and content = example_content, OF refl refl example_content_acl
        example_auditor_role example_captain_role a l]
      example_content_acl example_auditor_role example_captain_role
    by simp
qed

section \<open>Properties of the creation hook\<close>

lemma mark_acps_pairs:
  "acp_pairs (mark_acps_to_batch_insert env person role_name assessment g) =
     acp_pairs g @ role_pair assessment role_name person"
  by (simp add: mark_acps_to_batch_insert_def acp_pairs_def role_pair_def utcnow_def getattr_def
      Let_def split: option.splits)



lemma relate_person_pairs:
  "acp_pairs (relate_person env assessment assignee_ids verifier_ids creator_ids person g) =
     acp_pairs g @
       (if person \<notin> set (people_table env) then []
        else (if person \<in> set assignee_ids then role_pair assessment ''Assignees'' person else [])
           @ (if person \<in> set verifier_ids then role_pair assessment ''Verifiers'' person else [])
           @ (if person \<in> set creator_ids then role_pair assessment ''Creators'' person else []))"
  by (simp add: relate_person_def Let_def mark_acps_pairs)

lemma set_relate_person_pairs:
  "set (acp_pairs (relate_person env assessment assignee_ids verifier_ids creator_ids person g)) =
     set (acp_pairs g)
       \<union> role_pairs env assessment ''Assignees'' (filter (\<lambda>p. p = person) assignee_ids)
       \<union> role_pairs env assessment ''Verifiers'' (filter (\<lambda>p. p = person) verifier_ids)
       \<union> role_pairs env assessment ''Creators'' (filter (\<lambda>p. p = person) creator_ids)"
  unfolding relate_person_pairs
  by (auto simp: role_pair_def role_pairs_def split: option.splits)


lemma role_pairs_filter_member:
  "role_pairs env assessment role_name (filter (\<lambda>p. p \<in> S) ids) =
     {(p, l) \<in> role_pairs env assessment role_name ids. p \<in> S}"
  by (auto simp: role_pairs_def split: option.splits)

lemma set_relate_people_pairs:
  "set (acp_pairs (relate_people env assessment assignee_ids verifier_ids creator_ids people g)) =
     set (acp_pairs g)
       \<union> role_pairs env assessment ''Assignees'' (filter (\<lambda>p. p \<in> set people) assignee_ids)
       \<union> role_pairs env assessment ''Verifiers'' (filter (\<lambda>p. p \<in> set people) verifier_ids)
       \<union> role_pairs env assessment ''Creators'' (filter (\<lambda>p. p \<in> set people) creator_ids)"
proof (induction people arbitrary: g)
  case Nil
  show ?case by (simp add: role_pairs_def split: option.splits)
next
  case (Cons person people)
  show ?case
    unfolding relate_people.simps Cons.IH set_relate_person_pairs
    by (auto simp: role_pairs_def split: option.splits)
qed


lemma generate_assignee_relations_pairs:
  assumes "enumerates (set_order env (assignee_ids @ verifier_ids @ creator_ids))
             (set (assignee_ids @ verifier_ids @ creator_ids))"
  shows "set (acp_pairs (generate_assignee_relations env assessment assignee_ids verifier_ids
                           creator_ids g)) =
     set (acp_pairs g)
       \<union> role_pairs env assessment ''Assignees'' assignee_ids
       \<union> role_pairs env assessment ''Verifiers'' verifier_ids
       \<union> role_pairs env assessment ''Creators'' creator_ids"
proof -
  let ?people = "set_order env (assignee_ids @ verifier_ids @ creator_ids)"
  from assms have s: "set ?people = set assignee_ids \<union> set verifier_ids \<union> set creator_ids"
    by (auto simp: enumerates_def)
  have "filter (\<lambda>p. p \<in> set ?people) assignee_ids = assignee_ids"
    "filter (\<lambda>p. p \<in> set ?people) verifier_ids = verifier_ids"
    "filter (\<lambda>p. p \<in> set ?people) creator_ids = creator_ids"
    unfolding s by (simp_all add: filter_id_conv)
  then show ?thesis
    by (simp add: generate_assignee_relations_def Let_def set_relate_people_pairs)
qed







lemma cad_stubs_from_cong:
  "table_singular a = table_singular b \<Longrightarrow> asmt_id a = asmt_id b \<Longrightarrow>
   cad_stubs_from env a k defs = cad_stubs_from env b k defs"
  by (induction defs arbitrary: k) (simp_all add: cad_stub_at_def)


lemma started_assessment_fields:
  "table_singular (started_assessment assessment audit tmpl snapshot) = table_singular assessment"
  "asmt_id (started_assessment assessment audit tmpl snapshot) = asmt_id assessment"
  "acl_with_role_name (started_assessment assessment audit tmpl snapshot)
     = acl_with_role_name assessment"
  "title (started_assessment assessment audit tmpl snapshot) = title assessment"
  "test_plan (started_assessment assessment audit tmpl snapshot) = test_plan assessment"
  "test_plan_procedure (started_assessment assessment audit tmpl snapshot)
     = test_plan_procedure assessment"
  "sox_302_enabled (started_assessment assessment audit tmpl snapshot) =
     (case tmpl of None \<Rightarrow> sox_302_enabled assessment | Some t \<Rightarrow> Some (tmpl_sox_302_enabled t))"
  by (simp_all add: started_assessment_def)

lemma handle_assessment_start:
  "handle_assessment env assessment audit tmpl snapshot snapshot_rev_content is_autogenerated g =
     (let a3 = started_assessment assessment audit tmpl snapshot;
          g1 = started_request env assessment tmpl g
      in if \<not> (is_autogenerated \<or> snapshot \<noteq> None) then (Inr (), a3, g1)
         else
           case relate_assignees env a3 snapshot snapshot_rev_content tmpl audit g1 of
             (Inl e, g2) \<Rightarrow> (Inl e, a3, g2)
           | (Inr u, g2) \<Rightarrow>
               (case set_title a3 audit snapshot_rev_content of
                  (Inl e, a4) \<Rightarrow> (Inl e, a4, g2)
                | (Inr u, a4) \<Rightarrow>
                    (case set_test_plan a4 tmpl snapshot_rev_content of
                       (Inl e, a5) \<Rightarrow> (Inl e, a5, g2)
                     | (Inr u, a5) \<Rightarrow> (Inr (), set_assessment_type a5 tmpl, g2))))"
proof -
  let ?a2 = "map_to (map_to assessment (map_option (\<lambda>s. Snapshot_ref (snapshot_id s)) snapshot))
               (Some (Audit_ref (audit_id audit)))"
  have a: "(case tmpl of None \<Rightarrow> ?a2 | Some t \<Rightarrow> set_sox_302_enabled ?a2 tmpl) =
      started_assessment assessment audit tmpl snapshot"
    by (simp add: set_sox_302_enabled_def map_to_def started_assessment_def split: option.splits)
  have b: "(case tmpl of
              None \<Rightarrow> g
            | Some t \<Rightarrow>
                mark_cads_to_batch_insert env (custom_attribute_definitions t)
                  (started_assessment assessment audit tmpl snapshot) g) =
      started_request env assessment tmpl g"
    unfolding mark_cads_to_batch_insert_eq started_request_def
    by (simp add: cad_stubs_from_cong [OF started_assessment_fields(1,2)] split: option.splits)
  show ?thesis
    unfolding handle_assessment_def Let_def a b by (rule refl)
qed

lemma set_title_sox:
  "sox_302_enabled (snd (set_title a audit content)) = sox_302_enabled a"
  by (simp add: set_title_def split: option.splits)

lemma set_test_plan_sox:
  "sox_302_enabled (snd (set_test_plan a tmpl content)) = sox_302_enabled a"
  by (simp add: set_test_plan_def Let_def split: option.splits)

lemma set_assessment_type_sox:
  "sox_302_enabled (set_assessment_type a tmpl) = sox_302_enabled a"
  by (simp add: set_assessment_type_def split: option.splits)

lemma handle_assessment_sox:
  "sox_302_enabled (fst (snd (handle_assessment env assessment audit tmpl snapshot
       snapshot_rev_content is_autogenerated g))) =
     (case tmpl of None \<Rightarrow> sox_302_enabled assessment | Some t \<Rightarrow> Some (tmpl_sox_302_enabled t))"
proof -
  let ?a3 = "started_assessment assessment audit tmpl snapshot"
  let ?g1 = "started_request env assessment tmpl g"
  obtain r2 g2 where r: "relate_assignees env ?a3 snapshot snapshot_rev_content tmpl audit ?g1
      = (r2, g2)"
    by (cases "relate_assignees env ?a3 snapshot snapshot_rev_content tmpl audit ?g1")
  obtain r4 a4 where t: "set_title ?a3 audit snapshot_rev_content = (r4, a4)"
    by (cases "set_title ?a3 audit snapshot_rev_content")
  obtain r5 a5 where p: "set_test_plan a4 tmpl snapshot_rev_content = (r5, a5)"
    by (cases "set_test_plan a4 tmpl snapshot_rev_content")
  have s4: "sox_302_enabled a4 = sox_302_enabled ?a3"
    using set_title_sox [of ?a3 audit snapshot_rev_content] t by simp
  have s5: "sox_302_enabled a5 = sox_302_enabled ?a3"
    using set_test_plan_sox [of a4 tmpl snapshot_rev_content] p s4 by simp
  have "sox_302_enabled (fst (snd (handle_assessment env assessment audit tmpl snapshot
       snapshot_rev_content is_autogenerated g))) = sox_302_enabled ?a3"
    by (simp add: handle_assessment_start Let_def r t p s4 s5 set_assessment_type_sox
        split: sum.splits)
  then show ?thesis
    by (simp add: started_assessment_fields)
qed

text \<open>
  C5. When the hook is given a template whose \<open>sox_302_enabled\<close> is true, the assessment
  has \<open>sox_302_enabled\<close> true afterwards, whatever else the hook is given and whether
  it returns or raises; \<open>set_sox_302_enabled\<close> copies the flag of the template.
\<close>

theorem template_sox_302_flag_copied:
  assumes "tmpl = Some t"
    and "tmpl_sox_302_enabled t"
  shows "sox_302_enabled (set_sox_302_enabled assessment tmpl) = Some True
     \<and> sox_302_enabled (fst (snd (handle_assessment env assessment audit tmpl snapshot
          snapshot_rev_content is_autogenerated g))) = Some True"
  using assms by (simp add: handle_assessment_sox set_sox_302_enabled_def)

theorem template_sox_302_flag_copied_witness:
  "Some example_template = Some example_template
   \<and> tmpl_sox_302_enabled example_template
   \<and> sox_302_enabled example_assessment = None
   \<and> sox_302_enabled (fst (snd (handle_assessment example_environment example_assessment
        example_audit (Some example_template) (Some example_snapshot) (Some example_content)
        False example_request))) = Some True"
proof -
  have t: "tmpl_sox_302_enabled example_template"
    by (simp add: example_template_def)
  have n: "sox_302_enabled example_assessment = None"
    by (simp add: example_assessment_def)
  show ?thesis
    using t n template_sox_302_flag_copied [where assessment = example_assessment
        and env = example_environment and audit = example_audit
        and snapshot = "Some example_snapshot" and snapshot_rev_content = "Some example_content"
        and is_autogenerated = False and g = example_request, OF refl t]
    by simp
qed






text \<open>
  The guard of the hook: without a snapshot and without the \<open>_generated\<close> flag it returns
  once the template's flag and custom attribute definitions are dealt with. With a
  snapshot it returns normally only if the content of the snapshot's revision has a title
  and an access control list and the roles \<open>Auditors\<close> and \<open>Audit Captains\<close> of \<open>Audit\<close>
  exist: otherwise it raises.
\<close>

lemma handle_assessment_without_snapshot:
  "\<not> is_autogenerated \<Longrightarrow>
   handle_assessment env assessment audit tmpl None snapshot_rev_content is_autogenerated g =
     (Inr (), started_assessment assessment audit tmpl None,
      started_request env assessment tmpl g)"
  by (simp add: handle_assessment_start Let_def)

lemma handle_assessment_returns_only_if:
  assumes "fst (handle_assessment env assessment audit tmpl (Some snap) snapshot_rev_content
                  is_autogenerated g) = Inr ()"
  shows "\<exists>content snapshot_title acls auditor_role_id captain_role_id.
           snapshot_rev_content = Some content
         \<and> rc_title content = Some snapshot_title
         \<and> rc_access_control_list content = Some acls
         \<and> next_role_id (custom_roles_for env ''Audit'') ''Auditors'' = Inr auditor_role_id
         \<and> next_role_id (custom_roles_for env ''Audit'') ''Audit Captains''
               = Inr captain_role_id"
proof -
  let ?a3 = "started_assessment assessment audit tmpl (Some snap)"
  let ?g1 = "started_request env assessment tmpl g"
  from assms have r: "fst (relate_assignees env ?a3 (Some snap) snapshot_rev_content tmpl audit
      ?g1) = Inr ()"
    by (auto simp: handle_assessment_start Let_def split: prod.splits sum.splits)
  from assms have t: "fst (set_title ?a3 audit snapshot_rev_content) = Inr ()"
    by (auto simp: handle_assessment_start Let_def split: prod.splits sum.splits)
  from r obtain m where
    "generate_role_people_map env audit (Some snap) snapshot_rev_content = Inr m"
    by (auto simp: relate_assignees_def Let_def split: sum.splits)
  then obtain content acls auditor_role_id captain_role_id where
    "snapshot_rev_content = Some content"
    "rc_access_control_list content = Some acls"
    "next_role_id (custom_roles_for env ''Audit'') ''Auditors'' = Inr auditor_role_id"
    "next_role_id (custom_roles_for env ''Audit'') ''Audit Captains'' = Inr captain_role_id"
    by (auto simp: generate_role_people_map_def Let_def split: sum.splits option.splits)
  moreover from t this(1) obtain snapshot_title where "rc_title content = Some snapshot_title"
    by (auto simp: set_title_def split: option.splits)
  ultimately show ?thesis by blast
qed



end
